theory Spec2Isabelle
  imports Main
begin

section \<open>The error handling pipeline of src/errorHandling.ts\<close>

text \<open>
  The module records a raised error in the process-wide log \<^verbatim>\<open>fyo.errorLog\<close>, reports it
  over the inter-process channel, and shows a toast or a dialog. The embedding follows the
  source function by function. Everything the functions do beyond returning a value is a
  change of an explicit \<open>world\<close>: the object store (the context mapping \<^verbatim>\<open>more\<close> is
  mutated in place, so it lives at an address), the error log, and the record of every call
  made to a collaborator (console, \<^verbatim>\<open>ipcRenderer.invoke\<close>, \<^verbatim>\<open>showToast\<close>,
  \<^verbatim>\<open>showMessageDialog\<close>). The callbacks handed to the user interface are data: none
  is run here, and \<^verbatim>\<open>reportIssue\<close>, \<^verbatim>\<open>getIssueUrlQuery\<close> and
  \<^verbatim>\<open>showErrorDialog\<close> are not part of the model.
\<close>

subsection \<open>JavaScript values and objects\<close>

type_synonym addr = nat

text \<open>
  The values a context mapping can hold (\<^verbatim>\<open>Record<string, unknown>\<close>). Numbers are the
  integers among JavaScript's numbers; an object is a reference into the store.
\<close>

datatype jsval =
    JUndefined
  | JNull
  | JBool bool
  | JNum int
  | JStr string
  | JArr "jsval list"
  | JRef addr

text \<open>What \<^verbatim>\<open>if (v)\<close> tests: every value is truthy but undefined, null, false, 0 and ''.\<close>

fun truthy :: "jsval \<Rightarrow> bool" where
  "truthy JUndefined = False"
| "truthy JNull = False"
| "truthy (JBool b) = b"
| "truthy (JNum n) = (n \<noteq> 0)"
| "truthy (JStr s) = (s \<noteq> [])"
| "truthy (JArr xs) = True"
| "truthy (JRef a) = True"

type_synonym obj = "string \<rightharpoonup> jsval"

subsection \<open>Errors, log entries, payloads and presentation options\<close>

text \<open>
  An \<^verbatim>\<open>Error\<close> as the module reads it: \<^verbatim>\<open>name\<close>, \<^verbatim>\<open>message\<close>, the optional
  \<^verbatim>\<open>stack\<close> and \<^verbatim>\<open>cause\<close>, and the optional boolean \<^verbatim>\<open>shouldStore\<close> of a
  \<^verbatim>\<open>BaseError\<close>. \<open>None\<close> is JavaScript's undefined; an absent cause is \<open>JUndefined\<close>.
\<close>

record Error =
  name :: "string option"
  message :: string
  stack :: "string option"
  cause :: jsval
  shouldStore :: "bool option"

text \<open>
  What a \<^verbatim>\<open>catch\<close> clause can receive, and what the module then casts to
  \<^verbatim>\<open>Error\<close>: an error object, or undefined or null, on which reading a property raises
  a TypeError. (A thrown primitive of another kind is read like an object without the
  fields; it is not in the model.)
\<close>

datatype thrown =
    ErrorObject Error
  | ThrownUndefined
  | ThrownNull

text \<open>
  What a wrapper raises: the value the operation threw, or the TypeError of the engine for
  \<^verbatim>\<open>(error as BaseError).shouldStore\<close> on undefined or null.
\<close>

datatype raised =
    Original thrown
  | PropertyTypeError

text \<open>
  An \<^verbatim>\<open>ErrorLog\<close> entry \<^verbatim>\<open>{ name, stack, message, more }\<close>. The entry is never
  written to after it is built, so it is its value; its \<^verbatim>\<open>more\<close> is the address of the
  context mapping, which is shared with the caller. (The parameter \<^verbatim>\<open>more\<close> of the
  source is \<open>moreRef\<close> below: the address of the caller's object, or \<open>None\<close> where the
  optional parameter is left out.)
\<close>

record ErrorLog =
  log_name :: "string option"
  log_stack :: "string option"
  log_message :: string
  log_more :: "addr option"

text \<open>The \<^verbatim>\<open>body\<close> that \<^verbatim>\<open>reportError\<close> sends (as JSON.stringify(body)).\<close>

record ReportPayload =
  error_name :: "string option"
  body_message :: string
  body_stack :: "string option"
  body_platform :: string
  version :: string
  body_language :: string
  instance_id :: string
  open_count :: int
  country_code :: "string option"
  body_more :: string

text \<open>
  The callbacks the module hands to the user interface, one constructor per closure of the
  source: \<^verbatim>\<open>() => reportIssue(errorLogObj)\<close> of the toast, the Report button's
  \<^verbatim>\<open>reportIssue(getErrorLogObject(error, { errorMessage }))\<close>, and the empty action of
  Cancel.
\<close>

datatype callback =
    ReportIssue ErrorLog
  | RecordAndReportIssue Error string
  | NoAction

record ToastOptions =
  toast_message :: string
  toast_type :: string
  actionText :: string
  toast_action :: callback

record DialogButton =
  label :: string
  button_action :: callback

record MessageDialogOptions =
  dialog_message :: string
  detail :: string
  buttons :: "DialogButton list option"

datatype console_call =
    ConsoleError Error
  | ConsoleLog string ReportPayload

subsection \<open>The world and the collaborators\<close>

text \<open>
  \<open>objs\<close> and \<open>nextAddr\<close> are the object store, \<open>errorLog\<close> is \<^verbatim>\<open>fyo.errorLog\<close>. The
  other fields list, in order, the calls made to a collaborator: lines written to the
  console, payloads passed to \<^verbatim>\<open>ipcRenderer.invoke(IPC_ACTIONS.SEND_ERROR, ...)\<close>, toasts
  and dialogs shown. \<open>rejections\<close> lists what a promise that nobody awaits was rejected
  with.

  An \<^verbatim>\<open>async\<close> function is how its promise settles, \<open>Inl\<close> for a rejection and
  \<open>Inr\<close> for a result, together with the world at that moment. The collaborators are
  outside the module; each call is recorded and its promise resolves.
\<close>

record world =
  objs :: "addr \<Rightarrow> obj"
  nextAddr :: addr
  errorLog :: "ErrorLog list"
  console :: "console_call list"
  sent :: "ReportPayload list"
  toasts :: "ToastOptions list"
  dialogs :: "MessageDialogOptions list"
  rejections :: "raised list"

text \<open>The fields of \<^verbatim>\<open>fyo.store\<close> that the module reads.\<close>

record fyo_store =
  platform :: string
  appVersion :: string
  language :: string
  instanceId :: string
  openCount :: int
  isDevelopment :: bool

text \<open>
  What the module imports and only calls: the translation function \<^verbatim>\<open>t\<close>,
  \<^verbatim>\<open>getErrorMessage\<close> and \<^verbatim>\<open>stringifyCircular\<close> of ./utils (both may read the object
  store through a reference), the store, and
  \<^verbatim>\<open>fyo.singles.SystemSettings?.countryCode\<close>. They are parameters of the model.
\<close>

record env =
  translate :: "string \<Rightarrow> string"
  getErrorMessage :: "Error \<Rightarrow> jsval \<Rightarrow> (addr \<Rightarrow> obj) \<Rightarrow> string"
  stringifyCircular :: "(addr \<Rightarrow> obj) \<Rightarrow> obj \<Rightarrow> string"
  store :: fyo_store
  countryCode :: "string option"

text \<open>An object literal: a new object at a fresh address.\<close>

definition alloc :: "obj \<Rightarrow> world \<Rightarrow> addr \<times> world" where
  "alloc ob w =
     (nextAddr w, w\<lparr>objs := (objs w)(nextAddr w := ob), nextAddr := Suc (nextAddr w)\<rparr>)"

definition showToast :: "ToastOptions \<Rightarrow> world \<Rightarrow> world" where
  "showToast props w = w\<lparr>toasts := toasts w @ [props]\<rparr>"

definition showMessageDialog :: "MessageDialogOptions \<Rightarrow> world \<Rightarrow> world" where
  "showMessageDialog options w = w\<lparr>dialogs := dialogs w @ [options]\<rparr>"

text \<open>
  Modelled from the spec: \<^verbatim>\<open>truncate\<close> is imported from lodash and is not under src/.
  The spec says the detail is truncated to at most 128 characters, with a truncation
  suffix. The model is lodash's documented behaviour for a call with only a length: a
  string no longer than the length is returned as it is; a longer one is cut so that, with
  the omission ''...'' appended, it has exactly that length (or is the omission alone when
  the length leaves no room). Characters are the elements of the string. (The name \<open>truncate\<close> is taken by the record package.)
\<close>

definition truncate_string :: "string \<Rightarrow> nat \<Rightarrow> string" where
  "truncate_string s len =
     (if length s \<le> len then s
      else if len < 4 then ''...''
      else take (len - 3) s @ ''...'')"

subsection \<open>The functions of the module\<close>

definition shouldNotStore :: "Error \<Rightarrow> bool" where
  "shouldNotStore error =
     (let shouldLog = (case shouldStore error of None \<Rightarrow> True | Some b \<Rightarrow> b)
      in \<not> shouldLog)"

definition reportError :: "env \<Rightarrow> ErrorLog \<Rightarrow> world \<Rightarrow> world" where
  "reportError env errorLogObj w =
     (if log_stack errorLogObj = None \<or> log_stack errorLogObj = Some [] then w
      else
        let body = \<lparr>
              error_name = log_name errorLogObj,
              body_message = log_message errorLogObj,
              body_stack = log_stack errorLogObj,
              body_platform = platform (store env),
              version = appVersion (store env),
              body_language = language (store env),
              instance_id = instanceId (store env),
              open_count = openCount (store env),
              country_code = countryCode env,
              body_more = stringifyCircular env (objs w)
                (case log_more errorLogObj of None \<Rightarrow> Map.empty | Some a \<Rightarrow> objs w a)\<rparr>;
            w1 = (if isDevelopment (store env)
                  then w\<lparr>console := console w @ [ConsoleLog ''reportError'' body]\<rparr>
                  else w)
        in w1\<lparr>sent := sent w1 @ [body]\<rparr>)"

definition getToastProps :: "(string \<Rightarrow> string) \<Rightarrow> ErrorLog \<Rightarrow> ToastOptions" where
  "getToastProps t errorLogObj = \<lparr>
     toast_message = (case log_name errorLogObj of None \<Rightarrow> t ''Error'' | Some n \<Rightarrow> n),
     toast_type = ''error'',
     actionText = t ''Report Error'',
     toast_action = ReportIssue errorLogObj\<rparr>"

definition getErrorLogObject :: "Error \<Rightarrow> addr \<Rightarrow> world \<Rightarrow> ErrorLog \<times> world" where
  "getErrorLogObject error moreRef w =
     (let w1 = (if truthy (cause error)
                then w\<lparr>objs := (objs w)(moreRef := (objs w moreRef)(''cause'' \<mapsto> cause error))\<rparr>
                else w);
          errorLogObj = \<lparr>log_name = name error, log_stack = stack error,
                         log_message = message error, log_more = Some moreRef\<rparr>
      in (errorLogObj, w1\<lparr>errorLog := errorLog w1 @ [errorLogObj]\<rparr>))"

definition handleError :: "env \<Rightarrow> bool \<Rightarrow> Error \<Rightarrow> addr option \<Rightarrow> world \<Rightarrow> world" where
  "handleError env logToConsole error moreRef w =
     (let w1 = (if logToConsole then w\<lparr>console := console w @ [ConsoleError error]\<rparr> else w)
      in if shouldNotStore error then w1
         else
           let (a, w2) = (case moreRef of None \<Rightarrow> alloc Map.empty w1 | Some a \<Rightarrow> (a, w1));
               (errorLogObj, w3) = getErrorLogObject error a w2;
               w4 = reportError env errorLogObj w3;
               toastProps = getToastProps (translate env) errorLogObj
           in showToast toastProps w4)"

definition getErrorLabel :: "(string \<Rightarrow> string) \<Rightarrow> Error \<Rightarrow> string" where
  "getErrorLabel t error =
     (case name error of
        None \<Rightarrow> t ''Error''
      | Some n \<Rightarrow>
          if n = [] then t ''Error''
          else if n = ''BaseError'' then t ''Error''
          else if n = ''ValidationError'' then t ''Validation Error''
          else if n = ''NotFoundError'' then t ''Not Found''
          else if n = ''ForbiddenError'' then t ''Forbidden Error''
          else if n = ''DuplicateEntryError'' then t ''Duplicate Entry''
          else if n = ''LinkValidationError'' then t ''Link Validation Error''
          else if n = ''MandatoryError'' then t ''Mandatory Error''
          else if n = ''DatabaseError'' then t ''Database Error''
          else if n = ''CannotCommitError'' then t ''Cannot Commit Error''
          else if n = ''NotImplemented'' then t ''Error''
          else t ''Error'')"

text \<open>
  \<^verbatim>\<open>handleErrorWithDialog(error, doc, reportError, dontThrow)\<close>. The two flags are optional
  parameters, \<open>None\<close> when left out; \<^verbatim>\<open>if (flag)\<close> holds for \<open>Some True\<close> only. The
  result is \<open>Inl error\<close> when the function ends in \<^verbatim>\<open>throw error\<close>.
\<close>

definition handleErrorWithDialog ::
  "env \<Rightarrow> Error \<Rightarrow> jsval \<Rightarrow> bool option \<Rightarrow> bool option \<Rightarrow> world \<Rightarrow> (Error + unit) \<times> world" where
  "handleErrorWithDialog env error doc reportErrorFlag dontThrow w =
     (let errorMessage = getErrorMessage env error doc (objs w);
          (a, w1) = alloc [''errorMessage'' \<mapsto> JStr errorMessage, ''doc'' \<mapsto> doc] w;
          w2 = handleError env False error (Some a) w1;
          lbl = getErrorLabel (translate env) error;
          options = \<lparr>dialog_message = lbl, detail = errorMessage, buttons = None\<rparr>;
          options' =
            (if reportErrorFlag = Some True
             then options\<lparr>
                    detail := truncate_string (detail options) 128,
                    buttons := Some [
                      \<lparr>label = translate env ''Report'',
                       button_action = RecordAndReportIssue error errorMessage\<rparr>,
                      \<lparr>label = translate env ''Cancel'', button_action = NoAction\<rparr>]\<rparr>
             else options);
          w3 = showMessageDialog options' w2
      in if dontThrow = Some True
         then (Inr (),
               if isDevelopment (store env)
               then w3\<lparr>console := console w3 @ [ConsoleError error]\<rparr> else w3)
         else (Inl error, w3))"












subsection \<open>Concrete inputs\<close>

text \<open>
  Inputs on which the theorems below are evaluated: collaborators that do not translate
  (a label is its English literal), the world of a process that has handled nothing yet, and
  the error \<^verbatim>\<open>{name: 'ValidationError', message: 'Bad input', stack: 'trace...'}\<close>.
\<close>

definition plain_env :: env where
  "plain_env = \<lparr>
     translate = (\<lambda>s. s),
     getErrorMessage = (\<lambda>error doc h. message error),
     stringifyCircular = (\<lambda>h ob. ''{}''),
     store = \<lparr>platform = ''Linux'', appVersion = ''0.21.0'', language = ''English'',
              instanceId = ''ab12'', openCount = 3, isDevelopment = False\<rparr>,
     countryCode = None\<rparr>"

definition long_message_env :: env where
  "long_message_env = plain_env\<lparr>getErrorMessage := (\<lambda>error doc h. replicate 500 (CHR ''x''))\<rparr>"

definition empty_world :: world where
  "empty_world = \<lparr>objs = (\<lambda>a. Map.empty), nextAddr = 0, errorLog = [], console = [],
     sent = [], toasts = [], dialogs = [], rejections = []\<rparr>"

text \<open>A world with two context mappings: \<^verbatim>\<open>{a: 1}\<close> at 0 and \<^verbatim>\<open>{a: 1, cause: 1}\<close> at 1.\<close>

definition context_world :: world where
  "context_world = empty_world\<lparr>
     objs := (\<lambda>a. if a = 0 then [''a'' \<mapsto> JNum 1]
                   else if a = 1 then [''a'' \<mapsto> JNum 1, ''cause'' \<mapsto> JNum 1]
                   else Map.empty),
     nextAddr := 2\<rparr>"

definition validation_error :: Error where
  "validation_error = \<lparr>name = Some ''ValidationError'', message = ''Bad input'',
     stack = Some ''trace...'', cause = JUndefined, shouldStore = None\<rparr>"





section \<open>Properties\<close>

subsection \<open>What handleError leaves alone\<close>

lemmas pipeline_defs =
  handleError_def shouldNotStore_def alloc_def getErrorLogObject_def reportError_def
  getToastProps_def showToast_def

lemma shouldNotStore_iff: "shouldNotStore e = (shouldStore e = Some False)"
  by (cases "shouldStore e") (simp_all add: shouldNotStore_def)


lemma handleError_dialogs: "dialogs (handleError env l e moreRef w) = dialogs w"
  by (simp add: pipeline_defs Let_def split: option.split)

lemma truncate_length: "3 \<le> len \<Longrightarrow> length (truncate_string s len) \<le> len"
  by (auto simp: truncate_string_def)

subsection \<open>The label classifier\<close>

text \<open>
  C2 (amended). The classifier is total: for every name, absent, empty or outside the table,
  it returns the translation of one of nine literals, so the label is non-empty whenever
  translations of non-empty literals are. Eight recognized names have a label of their own:
  ValidationError, NotFoundError, ForbiddenError, DuplicateEntryError, LinkValidationError,
  MandatoryError, DatabaseError and CannotCommitError. BaseError and NotImplemented get the
  generic "Error" label, as every other name does. Under an injective translation the labels
  of BaseError and of the eight are pairwise distinct.
\<close>

theorem getErrorLabel_total_and_table:
  "getErrorLabel t e \<in> t ` {''Error'', ''Validation Error'', ''Not Found'', ''Forbidden Error'',
       ''Duplicate Entry'', ''Link Validation Error'', ''Mandatory Error'', ''Database Error'',
       ''Cannot Commit Error''}
   \<and> ((\<forall>l. l \<noteq> [] \<longrightarrow> t l \<noteq> []) \<longrightarrow> getErrorLabel t e \<noteq> [])
   \<and> (name e = Some ''ValidationError'' \<longrightarrow> getErrorLabel t e = t ''Validation Error'')
   \<and> (name e = Some ''NotFoundError'' \<longrightarrow> getErrorLabel t e = t ''Not Found'')
   \<and> (name e = Some ''ForbiddenError'' \<longrightarrow> getErrorLabel t e = t ''Forbidden Error'')
   \<and> (name e = Some ''DuplicateEntryError'' \<longrightarrow> getErrorLabel t e = t ''Duplicate Entry'')
   \<and> (name e = Some ''LinkValidationError'' \<longrightarrow>
        getErrorLabel t e = t ''Link Validation Error'')
   \<and> (name e = Some ''MandatoryError'' \<longrightarrow> getErrorLabel t e = t ''Mandatory Error'')
   \<and> (name e = Some ''DatabaseError'' \<longrightarrow> getErrorLabel t e = t ''Database Error'')
   \<and> (name e = Some ''CannotCommitError'' \<longrightarrow> getErrorLabel t e = t ''Cannot Commit Error'')
   \<and> (name e \<notin> Some ` {''ValidationError'', ''NotFoundError'', ''ForbiddenError'',
          ''DuplicateEntryError'', ''LinkValidationError'', ''MandatoryError'',
          ''DatabaseError'', ''CannotCommitError''} \<longrightarrow> getErrorLabel t e = t ''Error'')
   \<and> (inj t \<longrightarrow> distinct (map (\<lambda>n. getErrorLabel t (e\<lparr>name := Some n\<rparr>))
          [''BaseError'', ''ValidationError'', ''NotFoundError'', ''ForbiddenError'',
           ''DuplicateEntryError'', ''LinkValidationError'', ''MandatoryError'',
           ''DatabaseError'', ''CannotCommitError'']))"
proof -
  have range: "getErrorLabel t e \<in> t ` {''Error'', ''Validation Error'', ''Not Found'',
       ''Forbidden Error'', ''Duplicate Entry'', ''Link Validation Error'', ''Mandatory Error'',
       ''Database Error'', ''Cannot Commit Error''}"
    unfolding getErrorLabel_def by (simp split: option.split)
  have nonempty: "getErrorLabel t e \<noteq> []" if "\<forall>l. l \<noteq> [] \<longrightarrow> t l \<noteq> []"
    using that unfolding getErrorLabel_def by (simp split: option.split)
  have fallback: "getErrorLabel t e = t ''Error''"
    if "name e \<notin> Some ` {''ValidationError'', ''NotFoundError'', ''ForbiddenError'',
          ''DuplicateEntryError'', ''LinkValidationError'', ''MandatoryError'',
          ''DatabaseError'', ''CannotCommitError''}"
    using that unfolding getErrorLabel_def by (auto split: option.split)
  have apart: "distinct (map (\<lambda>n. getErrorLabel t (e\<lparr>name := Some n\<rparr>))
          [''BaseError'', ''ValidationError'', ''NotFoundError'', ''ForbiddenError'',
           ''DuplicateEntryError'', ''LinkValidationError'', ''MandatoryError'',
           ''DatabaseError'', ''CannotCommitError''])" if "inj t"
    using that by (simp add: getErrorLabel_def inj_eq)
  show ?thesis
    using range nonempty fallback apart by (simp add: getErrorLabel_def)
qed

theorem getErrorLabel_total_and_table_witness:
  "getErrorLabel (translate plain_env) validation_error = ''Validation Error''
   \<and> getErrorLabel (translate plain_env) (validation_error\<lparr>name := Some []\<rparr>) = ''Error''
   \<and> getErrorLabel (translate plain_env) (validation_error\<lparr>name := None\<rparr>) = ''Error''
   \<and> getErrorLabel (translate plain_env) (validation_error\<lparr>name := Some ''TypeError''\<rparr>)
       = ''Error''
   \<and> getErrorLabel (translate plain_env) (validation_error\<lparr>name := Some ''RangeError''\<rparr>)
       = ''Error''
   \<and> getErrorLabel (translate plain_env) validation_error \<noteq> []
   \<and> inj (translate plain_env)
   \<and> distinct (map (\<lambda>n. getErrorLabel (translate plain_env) (validation_error\<lparr>name := Some n\<rparr>))
          [''BaseError'', ''ValidationError'', ''NotFoundError'', ''ForbiddenError'',
           ''DuplicateEntryError'', ''LinkValidationError'', ''MandatoryError'',
           ''DatabaseError'', ''CannotCommitError''])"
  using getErrorLabel_total_and_table [of "translate plain_env" validation_error]
    getErrorLabel_total_and_table [of "translate plain_env" "validation_error\<lparr>name := Some []\<rparr>"]
    getErrorLabel_total_and_table [of "translate plain_env" "validation_error\<lparr>name := None\<rparr>"]
    getErrorLabel_total_and_table
      [of "translate plain_env" "validation_error\<lparr>name := Some ''TypeError''\<rparr>"]
    getErrorLabel_total_and_table
      [of "translate plain_env" "validation_error\<lparr>name := Some ''RangeError''\<rparr>"]
  by (simp add: plain_env_def validation_error_def inj_def)

text \<open>
  C2 as stated fails: the ten recognized names do not have ten distinct labels. BaseError
  and NotImplemented both get "Error", which is also the label of an unrecognized name.
\<close>

theorem getErrorLabel_labels_not_distinct:
  "getErrorLabel (translate plain_env) (validation_error\<lparr>name := Some ''BaseError''\<rparr>) =
     getErrorLabel (translate plain_env) (validation_error\<lparr>name := Some ''NotImplemented''\<rparr>)
   \<and> getErrorLabel (translate plain_env) (validation_error\<lparr>name := Some ''BaseError''\<rparr>) =
     getErrorLabel (translate plain_env) (validation_error\<lparr>name := Some ''TypeError''\<rparr>)"
  by (simp add: getErrorLabel_def plain_env_def validation_error_def)

subsection \<open>The gate and the reporter\<close>

text \<open>
  C3. For an error whose \<^verbatim>\<open>shouldStore\<close> is explicitly false, \<^verbatim>\<open>handleError\<close> does not
  append to the error log, does not invoke the remote reporter and does not show a toast;
  the log and every other part of the state (the object store, the dialogs, the detached
  rejections) are unchanged. The only thing it does is the \<^verbatim>\<open>console.error\<close> line that
  \<^verbatim>\<open>logToConsole\<close> asks for, which stands before the gate; without it the world is
  unchanged as a whole. When \<^verbatim>\<open>shouldStore\<close> is absent it defaults to true and handling
  proceeds: one entry is logged and one toast is shown.
\<close>

theorem handleError_gate_closed:
  "(shouldStore e = Some False \<longrightarrow>
      errorLog (handleError env l e moreRef w) = errorLog w
      \<and> sent (handleError env l e moreRef w) = sent w
      \<and> toasts (handleError env l e moreRef w) = toasts w
      \<and> objs (handleError env l e moreRef w) = objs w
      \<and> nextAddr (handleError env l e moreRef w) = nextAddr w
      \<and> dialogs (handleError env l e moreRef w) = dialogs w
      \<and> rejections (handleError env l e moreRef w) = rejections w
      \<and> console (handleError env l e moreRef w) =
          (if l then console w @ [ConsoleError e] else console w)
      \<and> handleError env False e moreRef w = w)
   \<and> (shouldStore e = None \<longrightarrow>
      \<not> shouldNotStore e
      \<and> length (errorLog (handleError env l e moreRef w)) = Suc (length (errorLog w))
      \<and> length (toasts (handleError env l e moreRef w)) = Suc (length (toasts w)))"
proof -
  have closed: "handleError env l e moreRef w =
      (if l then w\<lparr>console := console w @ [ConsoleError e]\<rparr> else w)"
    if "shouldStore e = Some False"
    using that by (simp add: handleError_def shouldNotStore_def)
  have "open": "\<not> shouldNotStore e
      \<and> length (errorLog (handleError env l e moreRef w)) = Suc (length (errorLog w))
      \<and> length (toasts (handleError env l e moreRef w)) = Suc (length (toasts w))"
    if "shouldStore e = None"
    using that by (simp add: pipeline_defs Let_def split: option.split)
  have quiet: "handleError env False e moreRef w = w" if "shouldStore e = Some False"
    using that by (simp add: handleError_def shouldNotStore_def)
  show ?thesis
    using closed quiet "open" by simp
qed

theorem handleError_gate_closed_witness:
  "shouldStore (validation_error\<lparr>shouldStore := Some False\<rparr>) = Some False
   \<and> errorLog (handleError plain_env True (validation_error\<lparr>shouldStore := Some False\<rparr>)
        None empty_world) = []
   \<and> sent (handleError plain_env True (validation_error\<lparr>shouldStore := Some False\<rparr>)
        None empty_world) = []
   \<and> toasts (handleError plain_env True (validation_error\<lparr>shouldStore := Some False\<rparr>)
        None empty_world) = []
   \<and> handleError plain_env False (validation_error\<lparr>shouldStore := Some False\<rparr>)
        None empty_world = empty_world
   \<and> shouldStore validation_error = None
   \<and> length (errorLog (handleError plain_env True validation_error None empty_world)) = 1
   \<and> length (toasts (handleError plain_env True validation_error None empty_world)) = 1"
  using handleError_gate_closed
      [of "validation_error\<lparr>shouldStore := Some False\<rparr>" plain_env True None empty_world]
    handleError_gate_closed [of validation_error plain_env True None empty_world]
  by (simp add: validation_error_def empty_world_def)

text \<open>
  C4. For a log entry whose \<^verbatim>\<open>stack\<close> is absent or empty the remote reporter is a no-op:
  the world is unchanged, so nothing is sent (and nothing is logged to the console). A
  payload is sent exactly when the stack is non-empty. \<^verbatim>\<open>reportError\<close> does not read
  \<^verbatim>\<open>shouldStore\<close>; through \<^verbatim>\<open>handleError\<close>, whatever \<^verbatim>\<open>shouldStore\<close> is, an error
  with an absent or empty stack sends nothing.
\<close>

theorem reportError_requires_stack:
  "(log_stack entry = None \<or> log_stack entry = Some [] \<longrightarrow> reportError env entry w = w)
   \<and> ((sent (reportError env entry w) \<noteq> sent w) = (\<exists>s. log_stack entry = Some s \<and> s \<noteq> []))
   \<and> (stack e = None \<or> stack e = Some [] \<longrightarrow>
        sent (handleError env l e moreRef w) = sent w)"
proof -
  have noop: "reportError env entry w = w"
    if "log_stack entry = None \<or> log_stack entry = Some []"
    using that by (auto simp: reportError_def)
  have only: "(sent (reportError env entry w) \<noteq> sent w) =
      (\<exists>s. log_stack entry = Some s \<and> s \<noteq> [])"
    by (cases "log_stack entry") (simp_all add: reportError_def Let_def)
  have handled: "sent (handleError env l e moreRef w) = sent w"
    if "stack e = None \<or> stack e = Some []"
    using that by (auto simp: pipeline_defs Let_def split: option.split)
  show ?thesis
    using noop only handled by blast
qed

theorem reportError_requires_stack_witness:
  "log_stack \<lparr>log_name = Some ''ValidationError'', log_stack = Some [],
      log_message = ''Bad input'', log_more = None\<rparr> = Some []
   \<and> reportError plain_env \<lparr>log_name = Some ''ValidationError'', log_stack = Some [],
      log_message = ''Bad input'', log_more = None\<rparr> empty_world = empty_world
   \<and> stack (validation_error\<lparr>stack := None, shouldStore := Some True\<rparr>) = None
   \<and> sent (handleError plain_env False
        (validation_error\<lparr>stack := None, shouldStore := Some True\<rparr>) None empty_world) = []
   \<and> sent (handleError plain_env False
        (validation_error\<lparr>stack := Some [], shouldStore := None\<rparr>) None empty_world) = []
   \<and> length (sent (reportError plain_env \<lparr>log_name = Some ''ValidationError'',
        log_stack = Some ''trace...'', log_message = ''Bad input'', log_more = None\<rparr>
        empty_world)) = 1"
  using reportError_requires_stack
      [of "\<lparr>log_name = Some ''ValidationError'', log_stack = Some [],
            log_message = ''Bad input'', log_more = None\<rparr>" plain_env empty_world
          "validation_error\<lparr>stack := None, shouldStore := Some True\<rparr>" False None]
    reportError_requires_stack
      [of "\<lparr>log_name = Some ''ValidationError'', log_stack = Some [],
            log_message = ''Bad input'', log_more = None\<rparr>" plain_env empty_world
          "validation_error\<lparr>stack := Some [], shouldStore := None\<rparr>" False None]
  by (simp add: validation_error_def empty_world_def reportError_def Let_def)

subsection \<open>One handled error\<close>

text \<open>
  C5. For an error with absent or true \<^verbatim>\<open>shouldStore\<close> and a non-empty stack, one call
  of \<^verbatim>\<open>handleError\<close> appends exactly one entry to the error log (built from the error's
  name, stack and message) and sends exactly one report, whose \<^verbatim>\<open>stack\<close> is the error's
  stack and whose \<^verbatim>\<open>error_name\<close> is the error's name.
\<close>

theorem handleError_records_and_reports_once:
  assumes "shouldStore e \<noteq> Some False" and "stack e = Some s" and "s \<noteq> []"
  shows "errorLog (handleError env l e moreRef w) = errorLog w @
           [\<lparr>log_name = name e, log_stack = stack e, log_message = message e,
             log_more = Some (case moreRef of None \<Rightarrow> nextAddr w | Some a \<Rightarrow> a)\<rparr>]
         \<and> (\<exists>body. sent (handleError env l e moreRef w) = sent w @ [body]
              \<and> body_stack body = stack e
              \<and> error_name body = name e
              \<and> body_message body = message e)"
proof -
  from assms(1) have go: "\<not> shouldNotStore e"
    by (simp add: shouldNotStore_iff)
  have logged: "errorLog (handleError env l e moreRef w) = errorLog w @
           [\<lparr>log_name = name e, log_stack = stack e, log_message = message e,
             log_more = Some (case moreRef of None \<Rightarrow> nextAddr w | Some a \<Rightarrow> a)\<rparr>]"
    using go
    by (simp add: handleError_def alloc_def getErrorLogObject_def reportError_def
        getToastProps_def showToast_def Let_def split: option.split)
  have reported: "\<exists>body. sent (handleError env l e moreRef w) = sent w @ [body]
              \<and> body_stack body = stack e
              \<and> error_name body = name e
              \<and> body_message body = message e"
    using go assms(2,3)
    by (simp add: handleError_def alloc_def getErrorLogObject_def reportError_def
        getToastProps_def showToast_def Let_def split: option.split)
  show ?thesis
    using logged reported by simp
qed

theorem handleError_records_and_reports_once_witness:
  "shouldStore validation_error \<noteq> Some False
   \<and> stack validation_error = Some ''trace...''
   \<and> errorLog (handleError plain_env False validation_error None empty_world) =
       [\<lparr>log_name = Some ''ValidationError'', log_stack = Some ''trace...'',
         log_message = ''Bad input'', log_more = Some 0\<rparr>]
   \<and> map body_stack (sent (handleError plain_env False validation_error None empty_world)) =
       [Some ''trace...'']
   \<and> map error_name (sent (handleError plain_env False validation_error None empty_world)) =
       [Some ''ValidationError'']"
  using handleError_records_and_reports_once
      [of validation_error "''trace...''" plain_env False None empty_world]
  by (auto simp: validation_error_def empty_world_def)

text \<open>
  C1 (amended). For an error with absent or true \<^verbatim>\<open>shouldStore\<close> and a non-empty stack,
  \<^verbatim>\<open>handleError\<close> presents exactly one toast. Its message is the error's name as it is
  (the translated "Error" only when the name is absent), not the classified label; its type
  is 'error', its action text the translated "Report Error", and its action reports the
  entry that was logged. For an error named 'ValidationError' the message is
  "ValidationError".
\<close>

theorem handleError_toast_carries_name:
  assumes "shouldStore e \<noteq> Some False" and "stack e = Some s" and "s \<noteq> []"
  shows "toasts (handleError env l e moreRef w) = toasts w @
     [\<lparr>toast_message = (case name e of None \<Rightarrow> translate env ''Error'' | Some n \<Rightarrow> n),
       toast_type = ''error'',
       actionText = translate env ''Report Error'',
       toast_action = ReportIssue
         \<lparr>log_name = name e, log_stack = stack e, log_message = message e,
          log_more = Some (case moreRef of None \<Rightarrow> nextAddr w | Some a \<Rightarrow> a)\<rparr>\<rparr>]"
proof -
  from assms(1) have "\<not> shouldNotStore e"
    by (simp add: shouldNotStore_iff)
  then show ?thesis
    using assms(2,3)
    by (simp add: handleError_def alloc_def getErrorLogObject_def reportError_def
        getToastProps_def showToast_def Let_def split: option.split)
qed

theorem handleError_toast_carries_name_witness:
  "shouldStore validation_error \<noteq> Some False
   \<and> stack validation_error = Some ''trace...''
   \<and> toasts (handleError plain_env False validation_error None empty_world) =
     [\<lparr>toast_message = ''ValidationError'', toast_type = ''error'',
       actionText = ''Report Error'',
       toast_action = ReportIssue
         \<lparr>log_name = Some ''ValidationError'', log_stack = Some ''trace...'',
          log_message = ''Bad input'', log_more = Some 0\<rparr>\<rparr>]"
  using handleError_toast_carries_name
      [of validation_error "''trace...''" plain_env False None empty_world]
  by (simp add: validation_error_def empty_world_def plain_env_def)

text \<open>
  C1 as stated fails: for the error named 'ValidationError' the classified label is
  "Validation Error", and the message of the toast is "ValidationError".
\<close>

theorem toast_message_is_not_label:
  "getErrorLabel (translate plain_env) validation_error = ''Validation Error''
   \<and> map toast_message (toasts (handleError plain_env False validation_error None empty_world))
       = [''ValidationError'']"
  by (simp add: getErrorLabel_def pipeline_defs Let_def plain_env_def validation_error_def
      empty_world_def)

subsection \<open>Recording an error\<close>

text \<open>
  C6 (amended). Recording an error drops no key of the supplied context mapping and keeps
  the value of every key other than \<^verbatim>\<open>cause\<close>. When the error carries a truthy cause,
  the cause is merged under the key \<^verbatim>\<open>cause\<close>, replacing a value the mapping already had
  there; when the cause is absent or falsy the mapping is left as it was. The returned
  entry is built from the error's name, stack and message, its \<^verbatim>\<open>more\<close> is that mapping,
  and the same entry is appended as the last element of the ordered log.
\<close>

theorem getErrorLogObject_merges_cause:
  assumes "getErrorLogObject e a w = (entry, w')"
  shows "entry = \<lparr>log_name = name e, log_stack = stack e, log_message = message e,
                  log_more = Some a\<rparr>
         \<and> errorLog w' = errorLog w @ [entry]
         \<and> dom (objs w a) \<subseteq> dom (objs w' a)
         \<and> (\<forall>k. k \<noteq> ''cause'' \<longrightarrow> objs w' a k = objs w a k)
         \<and> (truthy (cause e) \<longrightarrow> objs w' a ''cause'' = Some (cause e))
         \<and> (\<not> truthy (cause e) \<longrightarrow> objs w' a = objs w a)"
proof (cases "truthy (cause e)")
  case True
  with assms have "entry = \<lparr>log_name = name e, log_stack = stack e,
        log_message = message e, log_more = Some a\<rparr>"
    and "w' = w\<lparr>objs := (objs w)(a := (objs w a)(''cause'' \<mapsto> cause e)),
               errorLog := errorLog w @ [entry]\<rparr>"
    by (auto simp: getErrorLogObject_def Let_def)
  with True show ?thesis
    by auto
next
  case False
  with assms have "entry = \<lparr>log_name = name e, log_stack = stack e,
        log_message = message e, log_more = Some a\<rparr>"
    and "w' = w\<lparr>errorLog := errorLog w @ [entry]\<rparr>"
    by (auto simp: getErrorLogObject_def Let_def)
  with False show ?thesis
    by auto
qed

theorem getErrorLogObject_merges_cause_witness:
  "fst (getErrorLogObject (validation_error\<lparr>cause := JStr ''disk full''\<rparr>) 0 context_world) =
     \<lparr>log_name = Some ''ValidationError'', log_stack = Some ''trace...'',
      log_message = ''Bad input'', log_more = Some 0\<rparr>
   \<and> objs (snd (getErrorLogObject (validation_error\<lparr>cause := JStr ''disk full''\<rparr>) 0
        context_world)) 0 ''a'' = Some (JNum 1)
   \<and> objs (snd (getErrorLogObject (validation_error\<lparr>cause := JStr ''disk full''\<rparr>) 0
        context_world)) 0 ''cause'' = Some (JStr ''disk full'')
   \<and> errorLog (snd (getErrorLogObject (validation_error\<lparr>cause := JStr ''disk full''\<rparr>) 0
        context_world)) =
       [fst (getErrorLogObject (validation_error\<lparr>cause := JStr ''disk full''\<rparr>) 0
          context_world)]"
  using getErrorLogObject_merges_cause
      [of "validation_error\<lparr>cause := JStr ''disk full''\<rparr>" 0 context_world
          "fst (getErrorLogObject (validation_error\<lparr>cause := JStr ''disk full''\<rparr>) 0
             context_world)"
          "snd (getErrorLogObject (validation_error\<lparr>cause := JStr ''disk full''\<rparr>) 0
             context_world)"]
  by (simp add: validation_error_def context_world_def empty_world_def)

text \<open>
  C6 as stated fails. The context \<^verbatim>\<open>{a: 1, cause: 1}\<close> recorded with an error whose cause
  is 2 ends with \<^verbatim>\<open>cause: 2\<close>: the original key is not kept with its value. And an error
  that carries the cause 0 leaves \<^verbatim>\<open>{a: 1}\<close> without a \<^verbatim>\<open>cause\<close> key.
\<close>

theorem getErrorLogObject_overwrites_cause_key:
  "objs context_world 1 ''cause'' = Some (JNum 1)
   \<and> objs (snd (getErrorLogObject (validation_error\<lparr>cause := JNum 2\<rparr>) 1 context_world)) 1
        ''cause'' = Some (JNum 2)
   \<and> objs (snd (getErrorLogObject (validation_error\<lparr>cause := JNum 0\<rparr>) 0 context_world)) 0
        ''cause'' = None"
  by (simp add: getErrorLogObject_def Let_def validation_error_def context_world_def
      empty_world_def)

text \<open>
  C10 (amended). \<^verbatim>\<open>getErrorLogObject(error, more)\<close> mutates the caller's context mapping
  in place: when the error's cause is truthy (not undefined, null, false, 0 or the empty
  string), the \<^verbatim>\<open>cause\<close> key is written into the very object the caller passed, and when
  it is not, the store is unchanged. No object is allocated, so the returned entry's
  \<^verbatim>\<open>more\<close> is that same object, not a copy. All other keys of \<^verbatim>\<open>more\<close> and all other
  objects are left unchanged.
\<close>

theorem getErrorLogObject_mutates_in_place:
  assumes "getErrorLogObject e a w = (entry, w')"
  shows "log_more entry = Some a
         \<and> nextAddr w' = nextAddr w
         \<and> objs w' = (if truthy (cause e)
                       then (objs w)(a := (objs w a)(''cause'' \<mapsto> cause e))
                       else objs w)
         \<and> (\<forall>k. k \<noteq> ''cause'' \<longrightarrow> objs w' a k = objs w a k)
         \<and> (\<forall>b. b \<noteq> a \<longrightarrow> objs w' b = objs w b)"
  using assms by (auto simp: getErrorLogObject_def Let_def split: if_splits)

theorem getErrorLogObject_mutates_in_place_witness:
  "log_more (fst (getErrorLogObject (validation_error\<lparr>cause := JRef 1\<rparr>) 0 context_world))
     = Some 0
   \<and> nextAddr (snd (getErrorLogObject (validation_error\<lparr>cause := JRef 1\<rparr>) 0 context_world))
     = 2
   \<and> objs (snd (getErrorLogObject (validation_error\<lparr>cause := JRef 1\<rparr>) 0 context_world)) 0
        ''cause'' = Some (JRef 1)
   \<and> objs (snd (getErrorLogObject (validation_error\<lparr>cause := JRef 1\<rparr>) 0 context_world)) 0
        ''a'' = Some (JNum 1)
   \<and> objs (snd (getErrorLogObject (validation_error\<lparr>cause := JRef 1\<rparr>) 0 context_world)) 1
        = objs context_world 1"
  using getErrorLogObject_mutates_in_place
      [of "validation_error\<lparr>cause := JRef 1\<rparr>" 0 context_world
          "fst (getErrorLogObject (validation_error\<lparr>cause := JRef 1\<rparr>) 0 context_world)"
          "snd (getErrorLogObject (validation_error\<lparr>cause := JRef 1\<rparr>) 0 context_world)"]
  by (simp add: validation_error_def context_world_def empty_world_def)

text \<open>
  C10 as stated fails: a cause that is not null but falsy, here \<^verbatim>\<open>false\<close>, is not written
  into the caller's object.
\<close>

theorem getErrorLogObject_falsy_cause_not_written:
  "cause (validation_error\<lparr>cause := JBool False\<rparr>) \<noteq> JNull
   \<and> cause (validation_error\<lparr>cause := JBool False\<rparr>) \<noteq> JUndefined
   \<and> objs (snd (getErrorLogObject (validation_error\<lparr>cause := JBool False\<rparr>) 0
        context_world)) 0 ''cause'' = None
   \<and> objs (snd (getErrorLogObject (validation_error\<lparr>cause := JBool False\<rparr>) 0
        context_world)) = objs context_world"
  by (simp add: getErrorLogObject_def Let_def validation_error_def context_world_def
      empty_world_def)

subsection \<open>The wrappers\<close>










subsection \<open>The dialog\<close>

text \<open>
  C8. \<^verbatim>\<open>handleErrorWithDialog\<close> shows exactly one dialog and then ends in
  \<^verbatim>\<open>throw error\<close>, with the original error, unless \<^verbatim>\<open>dontThrow\<close> is set; when it is
  set the function returns normally, and all it does more than the throwing run is the
  \<^verbatim>\<open>console.error\<close> line of development mode. In particular
  \<^verbatim>\<open>handleErrorWithDialog(error, undefined, false, true)\<close> returns without re-raising.
\<close>

theorem handleErrorWithDialog_rethrows_unless_dontThrow:
  "fst (handleErrorWithDialog env e doc r d w) = (if d = Some True then Inr () else Inl e)
   \<and> length (dialogs (snd (handleErrorWithDialog env e doc r d w))) = Suc (length (dialogs w))
   \<and> snd (handleErrorWithDialog env e doc r d w) =
       (if d = Some True \<and> isDevelopment (store env)
        then (snd (handleErrorWithDialog env e doc r None w))\<lparr>console :=
               console (snd (handleErrorWithDialog env e doc r None w)) @ [ConsoleError e]\<rparr>
        else snd (handleErrorWithDialog env e doc r None w))
   \<and> fst (handleErrorWithDialog env e JUndefined (Some False) (Some True) w) = Inr ()"
  by (simp add: handleErrorWithDialog_def showMessageDialog_def alloc_def Let_def
      handleError_dialogs)

theorem handleErrorWithDialog_rethrows_unless_dontThrow_witness:
  "fst (handleErrorWithDialog plain_env validation_error JUndefined (Some False) (Some True)
      empty_world) = Inr ()
   \<and> fst (handleErrorWithDialog plain_env validation_error JUndefined (Some False) (Some False)
      empty_world) = Inl validation_error
   \<and> fst (handleErrorWithDialog plain_env validation_error JUndefined None None
      empty_world) = Inl validation_error
   \<and> length (dialogs (snd (handleErrorWithDialog plain_env validation_error JUndefined
      (Some False) (Some True) empty_world))) = 1"
  using handleErrorWithDialog_rethrows_unless_dontThrow
      [THEN conjunct1, of plain_env validation_error JUndefined "Some False" "Some True"
         empty_world]
    handleErrorWithDialog_rethrows_unless_dontThrow
      [THEN conjunct1, of plain_env validation_error JUndefined "Some False" "Some False"
         empty_world]
    handleErrorWithDialog_rethrows_unless_dontThrow
      [THEN conjunct1, of plain_env validation_error JUndefined None None empty_world]
    handleErrorWithDialog_rethrows_unless_dontThrow
      [THEN conjunct2, THEN conjunct1, of plain_env validation_error JUndefined "Some False"
         "Some True" empty_world]
  by (simp add: empty_world_def)

text \<open>
  C9. The one dialog that \<^verbatim>\<open>handleErrorWithDialog\<close> shows has the classified label as its
  message. When \<^verbatim>\<open>reportError\<close> is requested, its detail is the display message truncated
  to at most 128 characters (a longer message is cut to 125 characters followed by the
  suffix ''...'', 128 in all; a message of at most 128 characters is kept), and it carries
  the buttons "Report" and "Cancel". When it is not requested, the detail is the untruncated
  display message and no buttons are attached.
\<close>

theorem handleErrorWithDialog_detail_and_buttons:
  "dialogs (snd (handleErrorWithDialog env e doc r d w)) = dialogs w @
     [if r = Some True
      then \<lparr>dialog_message = getErrorLabel (translate env) e,
            detail = truncate_string (getErrorMessage env e doc (objs w)) 128,
            buttons = Some [
              \<lparr>label = translate env ''Report'',
               button_action = RecordAndReportIssue e (getErrorMessage env e doc (objs w))\<rparr>,
              \<lparr>label = translate env ''Cancel'', button_action = NoAction\<rparr>]\<rparr>
      else \<lparr>dialog_message = getErrorLabel (translate env) e,
            detail = getErrorMessage env e doc (objs w),
            buttons = None\<rparr>]
   \<and> length (truncate_string msg 128) \<le> 128
   \<and> (128 < length msg \<longrightarrow> truncate_string msg 128 = take 125 msg @ ''...'')
   \<and> (length msg \<le> 128 \<longrightarrow> truncate_string msg 128 = msg)"
proof -
  have shown: "dialogs (snd (handleErrorWithDialog env e doc r d w)) = dialogs w @
     [if r = Some True
      then \<lparr>dialog_message = getErrorLabel (translate env) e,
            detail = truncate_string (getErrorMessage env e doc (objs w)) 128,
            buttons = Some [
              \<lparr>label = translate env ''Report'',
               button_action = RecordAndReportIssue e (getErrorMessage env e doc (objs w))\<rparr>,
              \<lparr>label = translate env ''Cancel'', button_action = NoAction\<rparr>]\<rparr>
      else \<lparr>dialog_message = getErrorLabel (translate env) e,
            detail = getErrorMessage env e doc (objs w),
            buttons = None\<rparr>]"
    by (simp add: handleErrorWithDialog_def showMessageDialog_def alloc_def Let_def
        handleError_dialogs)
  have bound: "length (truncate_string msg 128) \<le> 128"
    by (rule truncate_length) simp
  have cut: "truncate_string msg 128 = take 125 msg @ ''...''" if "128 < length msg"
    using that by (simp add: truncate_string_def)
  have kept: "truncate_string msg 128 = msg" if "length msg \<le> 128"
    using that by (simp add: truncate_string_def)
  show ?thesis
    using shown bound cut kept by blast
qed

theorem handleErrorWithDialog_detail_and_buttons_witness:
  "length (getErrorMessage long_message_env validation_error JUndefined (objs empty_world))
     = 500
   \<and> map detail (dialogs (snd (handleErrorWithDialog long_message_env validation_error
        JUndefined (Some True) None empty_world)))
       = [replicate 125 (CHR ''x'') @ ''...'']
   \<and> map (map_option (map label) \<circ> buttons) (dialogs (snd (handleErrorWithDialog
        long_message_env validation_error JUndefined (Some True) None empty_world)))
       = [Some [''Report'', ''Cancel'']]
   \<and> map detail (dialogs (snd (handleErrorWithDialog long_message_env validation_error
        JUndefined (Some False) (Some True) empty_world)))
       = [replicate 500 (CHR ''x'')]
   \<and> map buttons (dialogs (snd (handleErrorWithDialog long_message_env validation_error
        JUndefined (Some False) (Some True) empty_world)))
       = [None]
   \<and> map dialog_message (dialogs (snd (handleErrorWithDialog long_message_env
        validation_error JUndefined (Some False) (Some True) empty_world)))
       = [''Validation Error'']"
  using handleErrorWithDialog_detail_and_buttons
      [of long_message_env validation_error JUndefined "Some True" None empty_world
          "replicate 500 (CHR ''x'')"]
    handleErrorWithDialog_detail_and_buttons
      [of long_message_env validation_error JUndefined "Some False" "Some True" empty_world
          "replicate 500 (CHR ''x'')"]
  by (simp add: long_message_env_def plain_env_def empty_world_def getErrorLabel_def
      validation_error_def)


end
